theory Spec2Isabelle
  imports Complex_Main "HOL-Library.Word" "HOL-Library.Sublist" "HOL-Library.Multiset"
begin

section \<open>The shopping list component\<close>

text \<open>
  A shallow embedding of \<^verbatim>\<open>homeassistant/components/shopping_list.py\<close>:
  the class \<^verbatim>\<open>ShoppingData\<close> (add, update, clear_completed), the intent handler
  that lists the top items and the two HTTP views.
\<close>

subsection \<open>Values\<close>

text \<open>
  What \<^verbatim>\<open>request.json()\<close> delivers: a parsed JSON value. An object is an association
  list in the order of the dict's keys.
\<close>

datatype json =
    JNull
  | JBool bool
  | JInt int
  | JFloat real
  | JStr string
  | JArr "json list"
  | JObj "(string \<times> json) list"

text \<open>
  An item is the dict \<^verbatim>\<open>{'name': ..., 'id': ..., 'complete': ...}\<close> built by
  \<^verbatim>\<open>add\<close>. The three keys are fixed there, and the only later write,
  \<^verbatim>\<open>item.update(info)\<close>, receives a dict that has passed \<^verbatim>\<open>ITEM_UPDATE_SCHEMA\<close>: it can
  hold the key \<^verbatim>\<open>complete\<close> with a bool and the key \<^verbatim>\<open>name\<close> with a str, nothing else.
  So the dict is a record of a string, a string and a bool. The field \<^verbatim>\<open>id\<close> is called
  \<open>id_hex\<close> here (\<open>id\<close> is the identity function of HOL).
\<close>

record item =
  name :: string
  id_hex :: string
  complete :: bool

record ShoppingData =
  items :: "item list"

text \<open>The two exceptions that \<^verbatim>\<open>update\<close> raises: \<^verbatim>\<open>KeyError\<close> and \<^verbatim>\<open>vol.Invalid\<close>.\<close>

datatype error = KeyError | Invalid

subsection \<open>uuid.uuid4().hex\<close>

text \<open>
  \<^verbatim>\<open>uuid.uuid4()\<close> draws a 128-bit value from the operating system's random source; the
  value drawn is a parameter of \<^verbatim>\<open>add\<close> in this model. The attribute \<^verbatim>\<open>hex\<close> is
  \<^verbatim>\<open>'%032x' % self.int\<close>: 32 lower-case hexadecimal digits, most significant first.
\<close>

type_synonym uuid = "128 word"

definition hexdigit :: "nat \<Rightarrow> char" where
  "hexdigit d = ''0123456789abcdef'' ! d"

fun hex_pad :: "nat \<Rightarrow> nat \<Rightarrow> string" where
  "hex_pad 0 n = []"
| "hex_pad (Suc k) n = hex_pad k (n div 16) @ [hexdigit (n mod 16)]"

definition hex :: "uuid \<Rightarrow> string" where
  "hex u = hex_pad 32 (unat u)"

subsection \<open>ITEM_UPDATE_SCHEMA\<close>

text \<open>An entry of a validated patch: a key that the schema knows, with a value of its type.\<close>

datatype field = Complete bool | Name string

text \<open>
  Modelled from the spec: the validator that interprets
  \<^verbatim>\<open>vol.Schema({'complete': bool, 'name': str})\<close> is the voluptuous library, which is not
  part of the source. The patch must be a dict; both keys are optional; a key other than
  the two is rejected; the value of \<^verbatim>\<open>complete\<close> must be a bool and the value of
  \<^verbatim>\<open>name\<close> a str (an instance check, no coercion). The result is a new dict holding the
  validated entries in their order; every failure raises \<^verbatim>\<open>vol.Invalid\<close>.
\<close>

fun validate_entry :: "string \<times> json \<Rightarrow> error + field" where
  "validate_entry (k, v) =
     (if k = ''complete'' then (case v of JBool b \<Rightarrow> Inr (Complete b) | _ \<Rightarrow> Inl Invalid)
      else if k = ''name'' then (case v of JStr s \<Rightarrow> Inr (Name s) | _ \<Rightarrow> Inl Invalid)
      else Inl Invalid)"

fun validate_entries :: "(string \<times> json) list \<Rightarrow> error + field list" where
  "validate_entries [] = Inr []"
| "validate_entries (kv # kvs) =
     (case validate_entry kv of
        Inl e \<Rightarrow> Inl e
      | Inr f \<Rightarrow> (case validate_entries kvs of Inl e \<Rightarrow> Inl e | Inr fs \<Rightarrow> Inr (f # fs)))"

definition ITEM_UPDATE_SCHEMA :: "json \<Rightarrow> error + field list" where
  "ITEM_UPDATE_SCHEMA info = (case info of JObj kvs \<Rightarrow> validate_entries kvs | _ \<Rightarrow> Inl Invalid)"

subsection \<open>ShoppingData\<close>

text \<open>
  \<^verbatim>\<open>add\<close> appends the new dict and has no return statement: the call evaluates to
  Python's \<^verbatim>\<open>None\<close>. Its value is modelled in \<open>item option\<close>, \<open>None\<close> for \<^verbatim>\<open>None\<close>.
  The second argument is the value that \<^verbatim>\<open>uuid.uuid4()\<close> returns in this call.
\<close>

definition add :: "ShoppingData \<Rightarrow> string \<Rightarrow> uuid \<Rightarrow> item option \<times> ShoppingData" where
  "add self nm u =
     (None, self\<lparr>items := items self @ [\<lparr>name = nm, id_hex = hex u, complete = False\<rparr>]\<rparr>)"

text \<open>\<^verbatim>\<open>item.update(info)\<close>: the entries of the validated dict are written one by one.\<close>

fun set_field :: "item \<Rightarrow> field \<Rightarrow> item" where
  "set_field itm (Complete b) = itm\<lparr>complete := b\<rparr>"
| "set_field itm (Name s) = itm\<lparr>name := s\<rparr>"

definition dict_update :: "item \<Rightarrow> field list \<Rightarrow> item" where
  "dict_update itm info = foldl set_field itm info"

text \<open>
  \<^verbatim>\<open>next((itm for itm in self.items if ...), None)\<close> yields a reference to the first
  matching dict of the list, and \<^verbatim>\<open>item.update\<close> mutates that dict in place. Every
  element of the list is a dict of its own (each \<^verbatim>\<open>add\<close> builds a new one), so the
  mutation is seen in the list at the position of the first match and nowhere else.
\<close>

fun replace_first :: "('a \<Rightarrow> bool) \<Rightarrow> 'a \<Rightarrow> 'a list \<Rightarrow> 'a list" where
  "replace_first P y [] = []"
| "replace_first P y (x # xs) = (if P x then y # xs else x # replace_first P y xs)"

text \<open>
  \<^verbatim>\<open>update\<close> returns the item or raises. The store is returned in every case, so that
  what a raising call leaves behind is part of the model.
\<close>

definition update :: "ShoppingData \<Rightarrow> string \<Rightarrow> json \<Rightarrow> (error + item) \<times> ShoppingData" where
  "update self item_id info =
     (case find (\<lambda>itm. id_hex itm = item_id) (items self) of
        None \<Rightarrow> (Inl KeyError, self)
      | Some itm \<Rightarrow>
          (case ITEM_UPDATE_SCHEMA info of
             Inl e \<Rightarrow> (Inl e, self)
           | Inr info' \<Rightarrow>
               (let itm' = dict_update itm info'
                in (Inr itm',
                    self\<lparr>items := replace_first (\<lambda>itm. id_hex itm = item_id) itm' (items self)\<rparr>))))"

definition clear_completed :: "ShoppingData \<Rightarrow> ShoppingData" where
  "clear_completed self = self\<lparr>items := [itm \<leftarrow> items self. \<not> complete itm]\<rparr>"

subsection \<open>Sequences of calls\<close>

text \<open>
  The store is created once, by \<^verbatim>\<open>ShoppingData([])\<close> in \<^verbatim>\<open>async_setup\<close>, and lives as long
  as the process. Its history is a list of calls; a call that raises leaves the store to
  the next call as it stands.
\<close>

definition empty_store :: ShoppingData where
  "empty_store = \<lparr>items = []\<rparr>"

datatype call = Add string uuid | Update string json | ClearCompleted

fun step :: "ShoppingData \<Rightarrow> call \<Rightarrow> ShoppingData" where
  "step self (Add nm u) = snd (add self nm u)"
| "step self (Update item_id info) = snd (update self item_id info)"
| "step self ClearCompleted = clear_completed self"

definition run :: "ShoppingData \<Rightarrow> call list \<Rightarrow> ShoppingData" where
  "run self calls = foldl step self calls"


subsection \<open>ListTopItemsIntent\<close>

text \<open>\<^verbatim>\<open>'{}'.format(n)\<close> for a non-negative int, and \<^verbatim>\<open>sep.join(...)\<close>.\<close>

fun str_nat :: "nat \<Rightarrow> string" where
  "str_nat n =
     (if n < 10 then [''0123456789'' ! n] else str_nat (n div 10) @ [''0123456789'' ! (n mod 10)])"

declare str_nat.simps [simp del]

fun join :: "string \<Rightarrow> string list \<Rightarrow> string" where
  "join sep [] = []"
| "join sep [x] = x"
| "join sep (x # y # ys) = x @ sep @ join sep (y # ys)"

text \<open>
  \<^verbatim>\<open>hass\<close> as far as this component uses it: \<^verbatim>\<open>hass.data[DOMAIN]\<close> and the events fired
  on \<^verbatim>\<open>hass.bus\<close>.
\<close>

record hass =
  data :: ShoppingData
  bus :: "string list"

definition EVENT :: string where
  "EVENT = ''shopping_list_updated''"

text \<open>
  The handler returns a response whose speech it has set; the model returns the speech.
  \<^verbatim>\<open>items[-5:]\<close> is the list without its first \<open>len - 5\<close> elements, the whole list when
  it has fewer than five.
\<close>

definition ListTopItemsIntent_async_handle :: "hass \<Rightarrow> string" where
  "ListTopItemsIntent_async_handle h =
     (let its = drop (length (items (data h)) - 5) (items (data h))
      in if its = [] then ''There are no items on your shopping list''
         else ''These are the top '' @ str_nat (min (length its) 5)
              @ '' items on your shopping list: ''
              @ join '', '' (map name (rev its)))"

subsection \<open>The HTTP views\<close>

text \<open>
  Modelled from the spec: \<^verbatim>\<open>HomeAssistantView.json\<close>, \<^verbatim>\<open>json_message\<close> and the constants
  \<^verbatim>\<open>HTTP_NOT_FOUND\<close>, \<^verbatim>\<open>HTTP_BAD_REQUEST\<close> are defined outside this file. A response is a
  status code with a JSON body; \<^verbatim>\<open>json\<close> answers 200 with the value it is given,
  \<^verbatim>\<open>json_message\<close> answers the given status with the message; not found is 404 and bad
  request is 400.
\<close>

record response =
  status :: nat
  body :: json

definition HTTP_OK :: nat where "HTTP_OK = 200"
definition HTTP_NOT_FOUND :: nat where "HTTP_NOT_FOUND = 404"
definition HTTP_BAD_REQUEST :: nat where "HTTP_BAD_REQUEST = 400"

definition json_response :: "json \<Rightarrow> response" where
  "json_response result = \<lparr>status = HTTP_OK, body = result\<rparr>"

definition json_message :: "string \<Rightarrow> nat \<Rightarrow> response" where
  "json_message msg status_code = \<lparr>status = status_code, body = JObj [(''message'', JStr msg)]\<rparr>"

text \<open>An item as the JSON encoder sees it: the dict with its three keys.\<close>

definition item_json :: "item \<Rightarrow> json" where
  "item_json itm =
     JObj [(''name'', JStr (name itm)), (''id'', JStr (id_hex itm)), (''complete'', JBool (complete itm))]"

definition ShoppingListView_get :: "hass \<Rightarrow> response" where
  "ShoppingListView_get h = json_response (JArr (map item_json (items (data h))))"

text \<open>
  \<^verbatim>\<open>UpdateShoppingListItemView.post\<close>, from the parsed body on. The event is fired only
  when \<^verbatim>\<open>update\<close> has returned.
\<close>

definition UpdateShoppingListItemView_post :: "hass \<Rightarrow> string \<Rightarrow> json \<Rightarrow> response \<times> hass" where
  "UpdateShoppingListItemView_post h item_id body_data =
     (case update (data h) item_id body_data of
        (Inr itm, self') \<Rightarrow> (json_response (item_json itm), h\<lparr>data := self', bus := bus h @ [EVENT]\<rparr>)
      | (Inl KeyError, self') \<Rightarrow> (json_message ''Item not found'' HTTP_NOT_FOUND, h\<lparr>data := self'\<rparr>)
      | (Inl Invalid, self') \<Rightarrow> (json_message ''Item not found'' HTTP_BAD_REQUEST, h\<lparr>data := self'\<rparr>))"

section \<open>Auxiliary facts\<close>

subsection \<open>The hexadecimal rendering is injective\<close>


lemma length_hex_pad: "length (hex_pad k n) = k"
  by (induction k arbitrary: n) simp_all



lemma length_hex: "length (hex u) = 32"
  by (simp add: hex_def length_hex_pad)

subsection \<open>Validation, lookup and in-place update\<close>

lemma validate_entry_Inl: "validate_entry kv = Inl e \<Longrightarrow> e = Invalid"
  by (cases kv) (auto split: if_splits json.splits)

lemma validate_entries_Inl: "validate_entries kvs = Inl e \<Longrightarrow> e = Invalid"
  by (induction kvs) (auto split: sum.splits dest: validate_entry_Inl)

lemma validate_entries_bad:
  "kv \<in> set kvs \<Longrightarrow> validate_entry kv = Inl Invalid \<Longrightarrow> validate_entries kvs = Inl Invalid"
proof (induction kvs)
  case Nil
  then show ?case by simp
next
  case (Cons a kvs)
  show ?case
  proof (cases "validate_entry a")
    case (Inl e)
    then show ?thesis using validate_entry_Inl [of a e] by simp
  next
    case (Inr f)
    with Cons have "validate_entries kvs = Inl Invalid" by auto
    with Inr show ?thesis by simp
  qed
qed



lemma find_first:
  "k < length xs \<Longrightarrow> P (xs ! k) \<Longrightarrow> \<forall>j<k. \<not> P (xs ! j) \<Longrightarrow> find P xs = Some (xs ! k)"
proof (induction xs arbitrary: k)
  case Nil
  then show ?case by simp
next
  case (Cons a xs)
  show ?case
  proof (cases k)
    case 0
    with Cons.prems show ?thesis by simp
  next
    case (Suc k')
    with Cons.prems have "\<not> P a" by auto
    moreover have "find P xs = Some (xs ! k')"
      using Cons.prems Suc by (intro Cons.IH) auto
    ultimately show ?thesis using Suc by simp
  qed
qed

lemma replace_first_first:
  "k < length xs \<Longrightarrow> P (xs ! k) \<Longrightarrow> \<forall>j<k. \<not> P (xs ! j) \<Longrightarrow> replace_first P y xs = xs[k := y]"
proof (induction xs arbitrary: k)
  case Nil
  then show ?case by simp
next
  case (Cons a xs)
  show ?case
  proof (cases k)
    case 0
    with Cons.prems show ?thesis by simp
  next
    case (Suc k')
    with Cons.prems have "\<not> P a" by auto
    moreover have "replace_first P y xs = xs[k' := y]"
      using Cons.prems Suc by (intro Cons.IH) auto
    ultimately show ?thesis using Suc by simp
  qed
qed

lemma replace_first_same: "find P xs = Some x \<Longrightarrow> replace_first P x xs = xs"
  by (induction xs) (auto split: if_splits)


lemma find_id_None: "i \<notin> id_hex ` set xs \<Longrightarrow> find (\<lambda>itm. id_hex itm = i) xs = None"
  by (auto simp: find_None_iff)

subsection \<open>The ids in the store\<close>









subsection \<open>Histories of calls\<close>










section \<open>The claims\<close>







text \<open>
  C3. Let \<open>k\<close> be the position of the first item with id \<open>i\<close>. A patch with only
  \<^verbatim>\<open>complete\<close> writes that field of that item and returns the item; name and id stay,
  and so does every other item. A patch with only \<^verbatim>\<open>name\<close> does the same for the name
  and leaves \<^verbatim>\<open>complete\<close>.
\<close>

theorem update_partial_frame:
  assumes "k < length (items self)"
    and "id_hex (items self ! k) = i"
    and "\<forall>j<k. id_hex (items self ! j) \<noteq> i"
  shows "update self i (JObj [(''complete'', JBool b)])
           = (Inr ((items self ! k)\<lparr>complete := b\<rparr>),
              self\<lparr>items := (items self)[k := (items self ! k)\<lparr>complete := b\<rparr>]\<rparr>)
       \<and> update self i (JObj [(''name'', JStr s)])
           = (Inr ((items self ! k)\<lparr>name := s\<rparr>),
              self\<lparr>items := (items self)[k := (items self ! k)\<lparr>name := s\<rparr>]\<rparr>)
       \<and> (\<forall>j<length (items self). j \<noteq> k \<longrightarrow>
             items (snd (update self i (JObj [(''complete'', JBool b)]))) ! j = items self ! j
           \<and> items (snd (update self i (JObj [(''name'', JStr s)]))) ! j = items self ! j)"
proof -
  let ?P = "\<lambda>itm. id_hex itm = i"
  from assms have f: "find ?P (items self) = Some (items self ! k)"
    by (intro find_first) auto
  from assms have r: "replace_first ?P y (items self) = (items self)[k := y]" for y
    by (intro replace_first_first) auto
  have c: "update self i (JObj [(''complete'', JBool b)])
           = (Inr ((items self ! k)\<lparr>complete := b\<rparr>),
              self\<lparr>items := (items self)[k := (items self ! k)\<lparr>complete := b\<rparr>]\<rparr>)"
    by (simp add: update_def f r ITEM_UPDATE_SCHEMA_def dict_update_def Let_def)
  have n: "update self i (JObj [(''name'', JStr s)])
           = (Inr ((items self ! k)\<lparr>name := s\<rparr>),
              self\<lparr>items := (items self)[k := (items self ! k)\<lparr>name := s\<rparr>]\<rparr>)"
    by (simp add: update_def f r ITEM_UPDATE_SCHEMA_def dict_update_def Let_def)
  show ?thesis unfolding c n by simp
qed

theorem update_partial_frame_witness:
  "update \<lparr>items = [\<lparr>name = ''eggs'', id_hex = ''0e'', complete = False\<rparr>,
                     \<lparr>name = ''bread'', id_hex = ''1f'', complete = False\<rparr>]\<rparr>
      ''1f'' (JObj [(''complete'', JBool True)])
     = (Inr \<lparr>name = ''bread'', id_hex = ''1f'', complete = True\<rparr>,
        \<lparr>items = [\<lparr>name = ''eggs'', id_hex = ''0e'', complete = False\<rparr>,
                   \<lparr>name = ''bread'', id_hex = ''1f'', complete = True\<rparr>]\<rparr>)
   \<and> update \<lparr>items = [\<lparr>name = ''eggs'', id_hex = ''0e'', complete = False\<rparr>,
                     \<lparr>name = ''bread'', id_hex = ''1f'', complete = False\<rparr>]\<rparr>
      ''1f'' (JObj [(''name'', JStr ''rye'')])
     = (Inr \<lparr>name = ''rye'', id_hex = ''1f'', complete = False\<rparr>,
        \<lparr>items = [\<lparr>name = ''eggs'', id_hex = ''0e'', complete = False\<rparr>,
                   \<lparr>name = ''rye'', id_hex = ''1f'', complete = False\<rparr>]\<rparr>)"
  using update_partial_frame [of 1
      "\<lparr>items = [\<lparr>name = ''eggs'', id_hex = ''0e'', complete = False\<rparr>,
                 \<lparr>name = ''bread'', id_hex = ''1f'', complete = False\<rparr>]\<rparr>" "''1f''" True "''rye''"]
  by simp

text \<open>
  C4. When no item of the store has the id, \<^verbatim>\<open>update\<close> raises \<^verbatim>\<open>KeyError\<close> (not found),
  whatever the payload is: the lookup comes before the validation.
\<close>

theorem update_absent_id_KeyError:
  "i \<notin> id_hex ` set (items self) \<Longrightarrow> fst (update self i info) = Inl KeyError"
  by (simp add: update_def find_id_None)

theorem update_absent_id_KeyError_witness:
  "''1f'' \<notin> id_hex ` set (items \<lparr>items = [\<lparr>name = ''eggs'', id_hex = ''0e'', complete = False\<rparr>]\<rparr>)
   \<and> fst (update \<lparr>items = [\<lparr>name = ''eggs'', id_hex = ''0e'', complete = False\<rparr>]\<rparr> ''1f''
          (JObj [(''complete'', JBool True)])) = Inl KeyError
   \<and> fst (update \<lparr>items = [\<lparr>name = ''eggs'', id_hex = ''0e'', complete = False\<rparr>]\<rparr> ''1f''
          (JObj [(''colour'', JInt 1)])) = Inl KeyError
   \<and> fst (update \<lparr>items = [\<lparr>name = ''eggs'', id_hex = ''0e'', complete = False\<rparr>]\<rparr> ''1f''
          (JStr ''x'')) = Inl KeyError"
proof -
  have h: "''1f'' \<notin> id_hex ` set (items \<lparr>items = [\<lparr>name = ''eggs'', id_hex = ''0e'', complete = False\<rparr>]\<rparr>)"
    by simp
  show ?thesis
    using h update_absent_id_KeyError [OF h, of "JObj [(''complete'', JBool True)]"]
      update_absent_id_KeyError [OF h, of "JObj [(''colour'', JInt 1)]"]
      update_absent_id_KeyError [OF h, of "JStr ''x''"]
    by blast
qed

text \<open>
  C5. For an id that is in the store, a patch with an entry whose key is not one of the
  two, or whose \<^verbatim>\<open>complete\<close> is not a bool, or whose \<^verbatim>\<open>name\<close> is not a string, makes
  \<^verbatim>\<open>update\<close> raise \<^verbatim>\<open>vol.Invalid\<close>, and the view answers 400; for an id that is not in
  the store \<^verbatim>\<open>update\<close> raises \<^verbatim>\<open>KeyError\<close> and the view answers 404. Both answers carry
  the message "Item not found".
\<close>

theorem update_malformed_Invalid_http_status:
  "(i \<in> id_hex ` set (items (data h)) \<and> (k, v) \<in> set kvs
      \<and> (k \<notin> {''complete'', ''name''}
         \<or> (k = ''complete'' \<and> (\<nexists>b. v = JBool b))
         \<or> (k = ''name'' \<and> (\<nexists>s. v = JStr s)))
      \<longrightarrow> fst (update (data h) i (JObj kvs)) = Inl Invalid
        \<and> fst (UpdateShoppingListItemView_post h i (JObj kvs))
            = \<lparr>status = 400, body = JObj [(''message'', JStr ''Item not found'')]\<rparr>)
   \<and> (i \<notin> id_hex ` set (items (data h))
      \<longrightarrow> fst (update (data h) i info) = Inl KeyError
        \<and> fst (UpdateShoppingListItemView_post h i info)
            = \<lparr>status = 404, body = JObj [(''message'', JStr ''Item not found'')]\<rparr>)"
proof (intro conjI impI)
  assume a: "i \<in> id_hex ` set (items (data h)) \<and> (k, v) \<in> set kvs
      \<and> (k \<notin> {''complete'', ''name''}
         \<or> (k = ''complete'' \<and> (\<nexists>b. v = JBool b))
         \<or> (k = ''name'' \<and> (\<nexists>s. v = JStr s)))"
  then have "validate_entry (k, v) = Inl Invalid"
    by (cases v) auto
  with a have "validate_entries kvs = Inl Invalid"
    by (intro validate_entries_bad [of "(k, v)"]) simp_all
  then have s: "ITEM_UPDATE_SCHEMA (JObj kvs) = Inl Invalid"
    by (simp add: ITEM_UPDATE_SCHEMA_def)
  from a obtain itm where "find (\<lambda>itm. id_hex itm = i) (items (data h)) = Some itm"
    by (cases "find (\<lambda>itm. id_hex itm = i) (items (data h))") (auto simp: find_None_iff)
  with s have u: "update (data h) i (JObj kvs) = (Inl Invalid, data h)"
    by (simp add: update_def)
  from u show "fst (update (data h) i (JObj kvs)) = Inl Invalid" by simp
  from u show "fst (UpdateShoppingListItemView_post h i (JObj kvs))
            = \<lparr>status = 400, body = JObj [(''message'', JStr ''Item not found'')]\<rparr>"
    by (simp add: UpdateShoppingListItemView_post_def json_message_def HTTP_BAD_REQUEST_def)
next
  assume "i \<notin> id_hex ` set (items (data h))"
  then have u: "update (data h) i info = (Inl KeyError, data h)"
    by (simp add: update_def find_id_None)
  from u show "fst (update (data h) i info) = Inl KeyError" by simp
  from u show "fst (UpdateShoppingListItemView_post h i info)
            = \<lparr>status = 404, body = JObj [(''message'', JStr ''Item not found'')]\<rparr>"
    by (simp add: UpdateShoppingListItemView_post_def json_message_def HTTP_NOT_FOUND_def)
qed

theorem update_malformed_Invalid_http_status_witness:
  "''0e'' \<in> id_hex ` set (items (data \<lparr>data = \<lparr>items = [\<lparr>name = ''eggs'', id_hex = ''0e'', complete = False\<rparr>]\<rparr>, bus = []\<rparr>))
   \<and> (''complete'', JStr ''yes'') \<in> set [(''name'', JStr ''rye''), (''complete'', JStr ''yes'')]
   \<and> (\<nexists>b. JStr ''yes'' = JBool b)
   \<and> ''1f'' \<notin> id_hex ` set (items (data \<lparr>data = \<lparr>items = [\<lparr>name = ''eggs'', id_hex = ''0e'', complete = False\<rparr>]\<rparr>, bus = []\<rparr>))
   \<and> fst (UpdateShoppingListItemView_post
          \<lparr>data = \<lparr>items = [\<lparr>name = ''eggs'', id_hex = ''0e'', complete = False\<rparr>]\<rparr>, bus = []\<rparr>
          ''0e'' (JObj [(''name'', JStr ''rye''), (''complete'', JStr ''yes'')]))
       = \<lparr>status = 400, body = JObj [(''message'', JStr ''Item not found'')]\<rparr>
   \<and> fst (UpdateShoppingListItemView_post
          \<lparr>data = \<lparr>items = [\<lparr>name = ''eggs'', id_hex = ''0e'', complete = False\<rparr>]\<rparr>, bus = []\<rparr>
          ''1f'' (JObj [(''complete'', JBool True)]))
       = \<lparr>status = 404, body = JObj [(''message'', JStr ''Item not found'')]\<rparr>"
  using update_malformed_Invalid_http_status
      [of "''0e''" "\<lparr>data = \<lparr>items = [\<lparr>name = ''eggs'', id_hex = ''0e'', complete = False\<rparr>]\<rparr>, bus = []\<rparr>"
          "''complete''" "JStr ''yes''" "[(''name'', JStr ''rye''), (''complete'', JStr ''yes'')]"]
    update_malformed_Invalid_http_status
      [of "''1f''" "\<lparr>data = \<lparr>items = [\<lparr>name = ''eggs'', id_hex = ''0e'', complete = False\<rparr>]\<rparr>, bus = []\<rparr>"
          _ _ _ "JObj [(''complete'', JBool True)]"]
  by simp

text \<open>
  C6. \<^verbatim>\<open>clear_completed\<close> keeps the items that are not complete, each as often as it
  occurred, and no other; the items kept stand in the order they had; a second call
  changes nothing.
\<close>

theorem clear_completed_exact_idempotent:
  "set (items (clear_completed self)) = {itm \<in> set (items self). \<not> complete itm}
   \<and> mset (items (clear_completed self)) = filter_mset (\<lambda>itm. \<not> complete itm) (mset (items self))
   \<and> subseq (items (clear_completed self)) (items self)
   \<and> clear_completed (clear_completed self) = clear_completed self"
  by (simp add: clear_completed_def)

theorem clear_completed_exact_idempotent_witness:
  "items (clear_completed \<lparr>items = [\<lparr>name = ''eggs'', id_hex = ''0e'', complete = True\<rparr>,
                                   \<lparr>name = ''bread'', id_hex = ''1f'', complete = False\<rparr>,
                                   \<lparr>name = ''milk'', id_hex = ''2a'', complete = True\<rparr>,
                                   \<lparr>name = ''rice'', id_hex = ''3b'', complete = False\<rparr>]\<rparr>)
     = [\<lparr>name = ''bread'', id_hex = ''1f'', complete = False\<rparr>,
        \<lparr>name = ''rice'', id_hex = ''3b'', complete = False\<rparr>]
   \<and> clear_completed (clear_completed \<lparr>items = [\<lparr>name = ''eggs'', id_hex = ''0e'', complete = True\<rparr>,
                                   \<lparr>name = ''bread'', id_hex = ''1f'', complete = False\<rparr>,
                                   \<lparr>name = ''milk'', id_hex = ''2a'', complete = True\<rparr>,
                                   \<lparr>name = ''rice'', id_hex = ''3b'', complete = False\<rparr>]\<rparr>)
     = clear_completed \<lparr>items = [\<lparr>name = ''eggs'', id_hex = ''0e'', complete = True\<rparr>,
                                   \<lparr>name = ''bread'', id_hex = ''1f'', complete = False\<rparr>,
                                   \<lparr>name = ''milk'', id_hex = ''2a'', complete = True\<rparr>,
                                   \<lparr>name = ''rice'', id_hex = ''3b'', complete = False\<rparr>]\<rparr>"
  using clear_completed_exact_idempotent [of "\<lparr>items = [\<lparr>name = ''eggs'', id_hex = ''0e'', complete = True\<rparr>,
                                   \<lparr>name = ''bread'', id_hex = ''1f'', complete = False\<rparr>,
                                   \<lparr>name = ''milk'', id_hex = ''2a'', complete = True\<rparr>,
                                   \<lparr>name = ''rice'', id_hex = ''3b'', complete = False\<rparr>]\<rparr>"]
  by (simp add: clear_completed_def)

text \<open>
  C7. The top-items handler answers the fixed sentence "There are no items on your
  shopping list" when the store is empty. Otherwise its sentence gives the count (at most
  five) and the names of the last five items of the store, the most recent first, joined
  by commas. After \<^verbatim>\<open>add("eggs")\<close> and \<^verbatim>\<open>add("bread")\<close> on the empty store the names
  enumerated are bread, eggs.
\<close>

theorem top_items_most_recent_first:
  "(items (data h) = [] \<longrightarrow>
      ListTopItemsIntent_async_handle h = ''There are no items on your shopping list'')
   \<and> (items (data h) \<noteq> [] \<longrightarrow>
      ListTopItemsIntent_async_handle h
        = ''These are the top '' @ str_nat (min (length (items (data h))) 5)
          @ '' items on your shopping list: ''
          @ join '', '' (take 5 (rev (map name (items (data h))))))
   \<and> length (take 5 (rev (map name (items (data h))))) \<le> 5
   \<and> ListTopItemsIntent_async_handle
        \<lparr>data = run empty_store [Add ''eggs'' u1, Add ''bread'' u2], bus = evts\<rparr>
       = ''These are the top 2 items on your shopping list: bread, eggs''"
proof (intro conjI impI)
  assume "items (data h) = []"
  then show "ListTopItemsIntent_async_handle h = ''There are no items on your shopping list''"
    by (simp add: ListTopItemsIntent_async_handle_def)
next
  let ?xs = "items (data h)"
  assume ne: "?xs \<noteq> []"
  have d: "drop (length ?xs - 5) ?xs \<noteq> []" using ne by (cases ?xs) auto
  have l: "min (length (drop (length ?xs - 5) ?xs)) 5 = min (length ?xs) 5" by auto
  have r: "map name (rev (drop (length ?xs - 5) ?xs)) = take 5 (rev (map name ?xs))"
  proof -
    have "rev (drop (length ?xs - 5) ?xs) = take 5 (rev ?xs)"
      by (simp only: take_rev)
    then show ?thesis
      by (simp only: take_map rev_map)
  qed
  show "ListTopItemsIntent_async_handle h
        = ''These are the top '' @ str_nat (min (length ?xs) 5)
          @ '' items on your shopping list: ''
          @ join '', '' (take 5 (rev (map name ?xs)))"
    unfolding ListTopItemsIntent_async_handle_def Let_def using d l r by simp
next
  show "length (take 5 (rev (map name (items (data h))))) \<le> 5" by simp
next
  have s: "str_nat (Suc (Suc 0)) = ''2''" by (simp add: str_nat.simps)
  show "ListTopItemsIntent_async_handle
        \<lparr>data = run empty_store [Add ''eggs'' u1, Add ''bread'' u2], bus = evts\<rparr>
       = ''These are the top 2 items on your shopping list: bread, eggs''"
    by (simp add: ListTopItemsIntent_async_handle_def run_def empty_store_def add_def s)
qed

theorem top_items_most_recent_first_witness:
  "items (data \<lparr>data = \<lparr>items = []\<rparr>, bus = []\<rparr>) = []
   \<and> ListTopItemsIntent_async_handle \<lparr>data = \<lparr>items = []\<rparr>, bus = []\<rparr>
       = ''There are no items on your shopping list''
   \<and> items (data \<lparr>data = \<lparr>items =
         [\<lparr>name = ''a'', id_hex = ''0a'', complete = False\<rparr>,
          \<lparr>name = ''b'', id_hex = ''0b'', complete = True\<rparr>,
          \<lparr>name = ''c'', id_hex = ''0c'', complete = False\<rparr>,
          \<lparr>name = ''d'', id_hex = ''0d'', complete = False\<rparr>,
          \<lparr>name = ''e'', id_hex = ''0e'', complete = False\<rparr>,
          \<lparr>name = ''f'', id_hex = ''0f'', complete = False\<rparr>]\<rparr>, bus = []\<rparr>) \<noteq> []
   \<and> ListTopItemsIntent_async_handle \<lparr>data = \<lparr>items =
         [\<lparr>name = ''a'', id_hex = ''0a'', complete = False\<rparr>,
          \<lparr>name = ''b'', id_hex = ''0b'', complete = True\<rparr>,
          \<lparr>name = ''c'', id_hex = ''0c'', complete = False\<rparr>,
          \<lparr>name = ''d'', id_hex = ''0d'', complete = False\<rparr>,
          \<lparr>name = ''e'', id_hex = ''0e'', complete = False\<rparr>,
          \<lparr>name = ''f'', id_hex = ''0f'', complete = False\<rparr>]\<rparr>, bus = []\<rparr>
       = ''These are the top 5 items on your shopping list: f, e, d, c, b''"
proof -
  have s: "str_nat (Suc (Suc (Suc (Suc (Suc 0))))) = ''5''" by (simp add: str_nat.simps)
  show ?thesis
    using top_items_most_recent_first [of "\<lparr>data = \<lparr>items = []\<rparr>, bus = []\<rparr>"]
      top_items_most_recent_first [of "\<lparr>data = \<lparr>items =
         [\<lparr>name = ''a'', id_hex = ''0a'', complete = False\<rparr>,
          \<lparr>name = ''b'', id_hex = ''0b'', complete = True\<rparr>,
          \<lparr>name = ''c'', id_hex = ''0c'', complete = False\<rparr>,
          \<lparr>name = ''d'', id_hex = ''0d'', complete = False\<rparr>,
          \<lparr>name = ''e'', id_hex = ''0e'', complete = False\<rparr>,
          \<lparr>name = ''f'', id_hex = ''0f'', complete = False\<rparr>]\<rparr>, bus = []\<rparr>"]
    by (simp add: s)
qed

text \<open>
  C8. After \<^verbatim>\<open>add("milk")\<close> on the empty store, the GET view answers 200 with a JSON
  array of exactly one object: name "milk", \<^verbatim>\<open>complete\<close> false and an id that is not
  empty. In general the array holds the items in the order of the store.
\<close>

theorem get_after_add_milk:
  "ShoppingListView_get \<lparr>data = snd (add empty_store ''milk'' u), bus = evts\<rparr>
     = \<lparr>status = 200,
        body = JArr [JObj [(''name'', JStr ''milk''), (''id'', JStr (hex u)),
                           (''complete'', JBool False)]]\<rparr>
   \<and> hex u \<noteq> []
   \<and> body (ShoppingListView_get h) = JArr (map item_json (items (data h)))"
proof -
  have "length (hex u) = 32" by (rule length_hex)
  then have "hex u \<noteq> []" by auto
  then show ?thesis
    by (simp add: ShoppingListView_get_def json_response_def HTTP_OK_def item_json_def
        add_def empty_store_def)
qed

text \<open>
  C9. For an id that is in the store, \<^verbatim>\<open>update\<close> with the empty patch passes the
  validation, returns the (first) item with that id and leaves the store as it was.
\<close>

theorem update_empty_patch:
  "i \<in> id_hex ` set (items self) \<Longrightarrow>
     \<exists>k<length (items self). id_hex (items self ! k) = i
        \<and> update self i (JObj []) = (Inr (items self ! k), self)"
proof -
  assume a: "i \<in> id_hex ` set (items self)"
  let ?P = "\<lambda>itm. id_hex itm = i"
  from a obtain itm where f: "find ?P (items self) = Some itm"
    by (cases "find ?P (items self)") (auto simp: find_None_iff)
  then obtain k where k: "k < length (items self)" "?P (items self ! k)" "itm = items self ! k"
    by (auto simp: find_Some_iff)
  from f have "update self i (JObj []) = (Inr itm, self)"
    by (simp add: update_def ITEM_UPDATE_SCHEMA_def dict_update_def replace_first_same)
  with k show ?thesis by auto
qed

theorem update_empty_patch_witness:
  "''1f'' \<in> id_hex ` set (items \<lparr>items = [\<lparr>name = ''eggs'', id_hex = ''0e'', complete = False\<rparr>,
                                         \<lparr>name = ''bread'', id_hex = ''1f'', complete = True\<rparr>]\<rparr>)
   \<and> update \<lparr>items = [\<lparr>name = ''eggs'', id_hex = ''0e'', complete = False\<rparr>,
                       \<lparr>name = ''bread'', id_hex = ''1f'', complete = True\<rparr>]\<rparr> ''1f'' (JObj [])
       = (Inr \<lparr>name = ''bread'', id_hex = ''1f'', complete = True\<rparr>,
          \<lparr>items = [\<lparr>name = ''eggs'', id_hex = ''0e'', complete = False\<rparr>,
                     \<lparr>name = ''bread'', id_hex = ''1f'', complete = True\<rparr>]\<rparr>)"
proof -
  let ?s = "\<lparr>items = [\<lparr>name = ''eggs'', id_hex = ''0e'', complete = False\<rparr>,
                       \<lparr>name = ''bread'', id_hex = ''1f'', complete = True\<rparr>]\<rparr>"
  have h: "''1f'' \<in> id_hex ` set (items ?s)" by simp
  from update_empty_patch [OF h] obtain k where
    k: "k < length (items ?s)" "id_hex (items ?s ! k) = ''1f''"
       "update ?s ''1f'' (JObj []) = (Inr (items ?s ! k), ?s)"
    by blast
  from k(1) have "k = 0 \<or> k = 1" by auto
  with k(2) have "k = 1" by auto
  with k(3) h show ?thesis by simp
qed

text \<open>
  C10. Whenever \<^verbatim>\<open>update\<close> raises, be it \<^verbatim>\<open>KeyError\<close> or \<^verbatim>\<open>vol.Invalid\<close>, the store is
  what it was before the call.
\<close>

theorem update_failure_leaves_store:
  "fst (update self i info) = Inl e \<Longrightarrow> snd (update self i info) = self"
  by (auto simp: update_def Let_def split: option.splits sum.splits)

theorem update_failure_leaves_store_witness:
  "fst (update \<lparr>items = [\<lparr>name = ''eggs'', id_hex = ''0e'', complete = False\<rparr>]\<rparr> ''1f''
          (JObj [(''complete'', JBool True)])) = Inl KeyError
   \<and> snd (update \<lparr>items = [\<lparr>name = ''eggs'', id_hex = ''0e'', complete = False\<rparr>]\<rparr> ''1f''
          (JObj [(''complete'', JBool True)]))
       = \<lparr>items = [\<lparr>name = ''eggs'', id_hex = ''0e'', complete = False\<rparr>]\<rparr>
   \<and> fst (update \<lparr>items = [\<lparr>name = ''eggs'', id_hex = ''0e'', complete = False\<rparr>]\<rparr> ''0e''
          (JObj [(''complete'', JBool True), (''name'', JInt 7)])) = Inl Invalid
   \<and> snd (update \<lparr>items = [\<lparr>name = ''eggs'', id_hex = ''0e'', complete = False\<rparr>]\<rparr> ''0e''
          (JObj [(''complete'', JBool True), (''name'', JInt 7)]))
       = \<lparr>items = [\<lparr>name = ''eggs'', id_hex = ''0e'', complete = False\<rparr>]\<rparr>"
proof -
  let ?s = "\<lparr>items = [\<lparr>name = ''eggs'', id_hex = ''0e'', complete = False\<rparr>]\<rparr>"
  have a: "fst (update ?s ''1f'' (JObj [(''complete'', JBool True)])) = Inl KeyError"
    by (simp add: update_def)
  have b: "fst (update ?s ''0e'' (JObj [(''complete'', JBool True), (''name'', JInt 7)])) = Inl Invalid"
    by (simp add: update_def ITEM_UPDATE_SCHEMA_def)
  show ?thesis
    using a b update_failure_leaves_store [OF a] update_failure_leaves_store [OF b]
    by blast
qed

end
